theory Spec2Isabelle
  imports Main
begin

section \<open>The TCP transport client of openvpn/transport/client/tcpcli.hpp\<close>

text \<open>
  The class \<open>TCPTransport::Client\<close> drives one outbound TCP connection attempt: it
  resolves the server name unless the remote list already holds an address, opens a
  socket, lets the platform protect it, connects, and hands the socket to a Link.
  Every method of the class is embedded below as a function from the client's state to
  its new state.

  The collaborators of the class (the session parent, the statistics object, the asio
  socket and resolver, the remote list and the Link) are declared in headers outside
  this file. What the client does to them is recorded, call by call and in program
  order, in the field \<open>trace\<close>; what they answer is taken from a record of parameters,
  \<open>collab\<close>. The remote list and the Link carry state of their own, of the abstract
  types \<open>'rl\<close> and \<open>'lk\<close>.

  A method name ending in an underscore in the source (\<open>stop_\<close>, \<open>do_resolve_\<close>,
  \<open>start_connect_\<close>, \<open>start_impl_\<close>) ends in a prime here, since an Isabelle name
  cannot end in an underscore.
\<close>

subsection \<open>Data\<close>

text \<open>An IP address with its family, and an asio endpoint (address and port).\<close>

datatype ip_version = V4 | V6

record ip_addr =
  version :: ip_version
  addr_bits :: nat

record endpoint =
  address :: ip_addr
  port :: nat

definition protocol :: "endpoint \<Rightarrow> ip_version" where
  "protocol ep = version (address ep)"

text \<open>An \<open>asio::error_code\<close>: the value 0 is success (\<open>!error\<close> holds).\<close>

type_synonym error_code = int

type_synonym buffer = "nat list"

text \<open>The members of \<open>Error::Type\<close> that this class uses.\<close>

datatype error_type =
  NETWORK_EOF_ERROR
  | TRANSPORT_ERROR
  | RESOLVE_ERROR
  | UNDEF
  | SOCKET_PROTECT_ERROR
  | TCP_CONNECT_ERROR

text \<open>The object a Link reports to: the client passes \<open>this\<close>.\<close>

datatype sink = This_client

text \<open>The arguments of the \<open>LinkImpl\<close> constructor, apart from the socket and the
  statistics object, of which there is one each.\<close>

record link_args =
  la_sink :: sink
  la_send_queue_max_size :: nat
  la_free_list_max_size :: nat
  la_frame_context :: nat

text \<open>One call made by the client on a collaborator.\<close>

datatype event =
  Parent_pre_resolve
  | Parent_wait
  | Parent_ip_hole_punch ip_addr
  | Parent_connecting
  | Parent_error error_type string
  | Parent_recv buffer
  | Parent_needs_send
  | Stats_error error_type
  | Socket_open ip_version
  | Socket_protect_call int
  | Socket_set_no_delay bool
  | Socket_async_connect endpoint
  | Socket_close
  | Resolver_async_resolve string string
  | Resolver_cancel
  | Remote_set_endpoint_list "endpoint list"
  | Link_new link_args
  | Link_start
  | Link_set_raw_mode bool
  | Link_send buffer
  | Link_reset_align_adjust nat
  | Link_stop
  | Log_line string

text \<open>\<open>ClientConfig\<close>. The fields \<open>remote_list\<close> and \<open>stats\<close> are shared objects: the
  remote list is held in the client's state below, the statistics object is written to
  through the trace. \<open>frame_READ_LINK_TCP\<close> is \<open>(*frame)[Frame::READ_LINK_TCP]\<close>.
  \<open>socket_protect\<close> is \<open>None\<close> for the null pointer.\<close>

record client_config =
  send_queue_max_size :: nat
  free_list_max_size :: nat
  frame_READ_LINK_TCP :: nat
  socket_protect :: "(int \<Rightarrow> bool) option"

text \<open>The constructor of \<open>ClientConfig\<close> sets the two sizes and the null hook; the
  frame is assigned by the owner afterwards.\<close>

definition new_obj :: "nat \<Rightarrow> client_config" where
  "new_obj fr = \<lparr>send_queue_max_size = 1024, free_list_max_size = 8,
     frame_READ_LINK_TCP = fr, socket_protect = None\<rparr>"

text \<open>What the collaborators answer. \<open>platform_type_unix\<close> is the macro
  \<open>OPENVPN_PLATFORM_TYPE_UNIX\<close>. \<open>endpoint_available\<close> returns its result together
  with the host and the port it writes through its pointer arguments.\<close>

record ('rl, 'lk) collab =
  config :: client_config
  platform_type_unix :: bool
  endpoint_available :: "'rl \<Rightarrow> bool \<times> string \<times> string"
  set_endpoint_list :: "endpoint list \<Rightarrow> 'rl \<Rightarrow> 'rl"
  get_endpoint :: "'rl \<Rightarrow> endpoint"
  native_handle :: int
  transport_is_openvpn_protocol :: bool
  error_message :: "error_code \<Rightarrow> string"
  endpoint_to_string :: "endpoint \<Rightarrow> string"
  link_new :: "link_args \<Rightarrow> 'lk"
  link_start :: "'lk \<Rightarrow> 'lk"
  link_stop :: "'lk \<Rightarrow> 'lk"
  link_set_raw_mode :: "bool \<Rightarrow> 'lk \<Rightarrow> 'lk"
  link_send :: "buffer \<Rightarrow> 'lk \<Rightarrow> bool \<times> 'lk"
  link_send_queue_empty :: "'lk \<Rightarrow> bool"
  link_reset_align_adjust :: "nat \<Rightarrow> 'lk \<Rightarrow> 'lk"

text \<open>The members of \<open>Client\<close>, the remote list its config points to, and the calls
  made so far.\<close>

record ('rl, 'lk) client =
  server_host :: string
  server_port :: string
  remote_list :: 'rl
  impl :: "'lk option"
  server_endpoint :: endpoint
  halt :: bool
  trace :: "event list"

text \<open>The constructor: no Link, not halted, nothing called yet. The strings are empty
  and the endpoint is asio's default (the IPv4 address 0, port 0).\<close>

definition new_client :: "'rl \<Rightarrow> ('rl, 'lk) client" where
  "new_client rl = \<lparr>server_host = [], server_port = [], remote_list = rl, impl = None,
     server_endpoint = \<lparr>address = \<lparr>version = V4, addr_bits = 0\<rparr>, port = 0\<rparr>,
     halt = False, trace = []\<rparr>"

subsection \<open>The methods\<close>

definition emit :: "event \<Rightarrow> ('rl, 'lk) client \<Rightarrow> ('rl, 'lk) client" where
  "emit e s = s\<lparr>trace := trace s @ [e]\<rparr>"

definition squote :: string where
  "squote = [CHR 0x27]"

definition server_endpoint_addr :: "('rl, 'lk) client \<Rightarrow> ip_addr" where
  "server_endpoint_addr s = address (server_endpoint s)"

text \<open>\<open>stop_\<close>: guarded by the flag; sets it, stops the Link if there is one, closes
  the socket, cancels the resolver. The Link pointer is kept.\<close>

definition stop' :: "('rl, 'lk) collab \<Rightarrow> ('rl, 'lk) client \<Rightarrow> ('rl, 'lk) client" where
  "stop' env s =
     (if \<not> halt s then
        let s1 = s\<lparr>halt := True\<rparr>;
            s2 = (case impl s1 of
                    Some l \<Rightarrow> emit Link_stop (s1\<lparr>impl := Some (link_stop env l)\<rparr>)
                  | None \<Rightarrow> s1);
            s3 = emit Socket_close s2
        in emit Resolver_cancel s3
      else s)"

definition stop :: "('rl, 'lk) collab \<Rightarrow> ('rl, 'lk) client \<Rightarrow> ('rl, 'lk) client" where
  "stop env s = stop' env s"

text \<open>The body of the destructor \<open>~Client\<close>.\<close>

definition destroy :: "('rl, 'lk) collab \<Rightarrow> ('rl, 'lk) client \<Rightarrow> ('rl, 'lk) client" where
  "destroy env s = stop' env s"

text \<open>\<open>start_connect_\<close>. The hook is consulted only on a Unix platform and only when it
  is configured; when it refuses the socket the method returns before
  \<open>async_connect\<close>.\<close>

definition connect_socket :: "('rl, 'lk) client \<Rightarrow> ('rl, 'lk) client" where
  "connect_socket s =
     emit (Socket_async_connect (server_endpoint s)) (emit (Socket_set_no_delay True) s)"

definition start_connect' :: "('rl, 'lk) collab \<Rightarrow> ('rl, 'lk) client \<Rightarrow> ('rl, 'lk) client" where
  "start_connect' env s =
     (let s1 = s\<lparr>server_endpoint := get_endpoint env (remote_list s)\<rparr>;
          s2 = emit (Log_line (''Contacting '' @ endpoint_to_string env (server_endpoint s1)
                                 @ '' via TCP'')) s1;
          s3 = emit Parent_wait s2;
          s4 = emit (Parent_ip_hole_punch (server_endpoint_addr s3)) s3;
          s5 = emit (Socket_open (protocol (server_endpoint s4))) s4
      in if platform_type_unix env then
           (case socket_protect (config env) of
              Some hook \<Rightarrow>
                (let s6 = emit (Socket_protect_call (native_handle env)) s5
                 in if \<not> hook (native_handle env) then
                      emit (Parent_error UNDEF ''socket_protect error (TCP)'')
                        (stop env (emit (Stats_error SOCKET_PROTECT_ERROR) s6))
                    else connect_socket s6)
            | None \<Rightarrow> connect_socket s5)
         else connect_socket s5)"

text \<open>\<open>transport_start\<close>.\<close>

definition transport_start :: "('rl, 'lk) collab \<Rightarrow> ('rl, 'lk) client \<Rightarrow> ('rl, 'lk) client" where
  "transport_start env s =
     (if impl s = None then
        (let s1 = s\<lparr>halt := False\<rparr>;
             r = endpoint_available env (remote_list s1);
             s2 = s1\<lparr>server_host := fst (snd r), server_port := snd (snd r)\<rparr>
         in if fst r then start_connect' env s2
            else emit (Resolver_async_resolve (server_host s2) (server_port s2))
                   (emit Parent_pre_resolve s2))
      else s)"

text \<open>\<open>do_resolve_\<close>, the completion handler of the resolve.\<close>

definition do_resolve' ::
  "('rl, 'lk) collab \<Rightarrow> error_code \<Rightarrow> endpoint list \<Rightarrow> ('rl, 'lk) client \<Rightarrow> ('rl, 'lk) client" where
  "do_resolve' env error endpoint_iterator s =
     (if \<not> halt s then
        (if error = 0 then
           start_connect' env
             (emit (Remote_set_endpoint_list endpoint_iterator)
                (s\<lparr>remote_list := set_endpoint_list env endpoint_iterator (remote_list s)\<rparr>))
         else
           (let os = ''DNS resolve error on '' @ squote @ server_host s @ squote
                       @ '' for TCP session: '' @ error_message env error
            in emit (Parent_error UNDEF os) (stop env (emit (Stats_error RESOLVE_ERROR) s))))
      else s)"

text \<open>\<open>start_impl_\<close>, the completion handler of the connect.\<close>

definition start_impl' ::
  "('rl, 'lk) collab \<Rightarrow> error_code \<Rightarrow> ('rl, 'lk) client \<Rightarrow> ('rl, 'lk) client" where
  "start_impl' env error s =
     (if \<not> halt s then
        (if error = 0 then
           (let args = \<lparr>la_sink = This_client,
                        la_send_queue_max_size = send_queue_max_size (config env),
                        la_free_list_max_size = free_list_max_size (config env),
                        la_frame_context = frame_READ_LINK_TCP (config env)\<rparr>;
                s1 = emit (Link_new args) (s\<lparr>impl := Some (link_new env args)\<rparr>);
                s2 = emit Link_start (s1\<lparr>impl := map_option (link_start env) (impl s1)\<rparr>);
                s3 = (if \<not> transport_is_openvpn_protocol env then
                        emit (Link_set_raw_mode True)
                          (s2\<lparr>impl := map_option (link_set_raw_mode env True) (impl s2)\<rparr>)
                      else s2)
            in emit Parent_connecting s3)
         else
           (let os = ''TCP connect error on '' @ squote @ server_host s @ '':'' @ server_port s
                       @ squote @ '' ('' @ endpoint_to_string env (server_endpoint s) @ ''): ''
                       @ error_message env error
            in emit (Parent_error UNDEF os) (stop env (emit (Stats_error TCP_CONNECT_ERROR) s))))
      else s)"

text \<open>\<open>send\<close>, \<open>send_const\<close> and their public wrappers. \<open>send_const\<close> copies the buffer
  and sends the copy.\<close>

definition send :: "('rl, 'lk) collab \<Rightarrow> buffer \<Rightarrow> ('rl, 'lk) client \<Rightarrow> bool \<times> ('rl, 'lk) client" where
  "send env buf s =
     (case impl s of
        Some l \<Rightarrow> (fst (link_send env buf l),
                   emit (Link_send buf) (s\<lparr>impl := Some (snd (link_send env buf l))\<rparr>))
      | None \<Rightarrow> (False, s))"

definition send_const :: "('rl, 'lk) collab \<Rightarrow> buffer \<Rightarrow> ('rl, 'lk) client \<Rightarrow> bool \<times> ('rl, 'lk) client" where
  "send_const env cbuf s =
     (case impl s of
        Some l \<Rightarrow> (let buf = cbuf
                   in (fst (link_send env buf l),
                       emit (Link_send buf) (s\<lparr>impl := Some (snd (link_send env buf l))\<rparr>)))
      | None \<Rightarrow> (False, s))"

definition transport_send_const ::
  "('rl, 'lk) collab \<Rightarrow> buffer \<Rightarrow> ('rl, 'lk) client \<Rightarrow> bool \<times> ('rl, 'lk) client" where
  "transport_send_const env buf s = send_const env buf s"

definition transport_send ::
  "('rl, 'lk) collab \<Rightarrow> buffer \<Rightarrow> ('rl, 'lk) client \<Rightarrow> bool \<times> ('rl, 'lk) client" where
  "transport_send env buf s = send env buf s"

definition transport_send_queue_empty :: "('rl, 'lk) collab \<Rightarrow> ('rl, 'lk) client \<Rightarrow> bool" where
  "transport_send_queue_empty env s =
     (case impl s of Some l \<Rightarrow> link_send_queue_empty env l | None \<Rightarrow> False)"

definition reset_align_adjust ::
  "('rl, 'lk) collab \<Rightarrow> nat \<Rightarrow> ('rl, 'lk) client \<Rightarrow> ('rl, 'lk) client" where
  "reset_align_adjust env align_adjust s =
     (case impl s of
        Some l \<Rightarrow> emit (Link_reset_align_adjust align_adjust)
                    (s\<lparr>impl := Some (link_reset_align_adjust env align_adjust l)\<rparr>)
      | None \<Rightarrow> s)"

text \<open>The four callbacks the Link invokes on the client.\<close>

definition tcp_error_handler ::
  "('rl, 'lk) collab \<Rightarrow> string \<Rightarrow> ('rl, 'lk) client \<Rightarrow> ('rl, 'lk) client" where
  "tcp_error_handler env error s =
     (let os = ''Transport error on '' @ squote @ server_host s @ '': '' @ error
      in emit (Parent_error TRANSPORT_ERROR os) (stop env s))"

definition tcp_eof_handler :: "('rl, 'lk) collab \<Rightarrow> ('rl, 'lk) client \<Rightarrow> ('rl, 'lk) client" where
  "tcp_eof_handler env s =
     tcp_error_handler env ''NETWORK_EOF_ERROR'' (emit (Stats_error NETWORK_EOF_ERROR) s)"

definition tcp_read_handler :: "buffer \<Rightarrow> ('rl, 'lk) client \<Rightarrow> bool \<times> ('rl, 'lk) client" where
  "tcp_read_handler buf s = (True, emit (Parent_recv buf) s)"

definition tcp_write_queue_needs_send :: "('rl, 'lk) client \<Rightarrow> ('rl, 'lk) client" where
  "tcp_write_queue_needs_send s = emit Parent_needs_send s"

subsection \<open>Sequences of calls\<close>

text \<open>A call on the client from outside: a public method, a completion of the resolve
  or of the connect, or a callback from the Link.\<close>

datatype op =
  Start
  | Stop
  | Send buffer
  | Send_const buffer
  | Send_queue_empty
  | Reset_align_adjust nat
  | Resolve_done error_code "endpoint list"
  | Connect_done error_code
  | Link_eof
  | Link_error string
  | Link_read buffer
  | Link_needs_send

fun step :: "('rl, 'lk) collab \<Rightarrow> op \<Rightarrow> ('rl, 'lk) client \<Rightarrow> ('rl, 'lk) client" where
  "step env Start s = transport_start env s"
| "step env Stop s = stop env s"
| "step env (Send buf) s = snd (transport_send env buf s)"
| "step env (Send_const buf) s = snd (transport_send_const env buf s)"
| "step env Send_queue_empty s = s"
| "step env (Reset_align_adjust n) s = reset_align_adjust env n s"
| "step env (Resolve_done error it) s = do_resolve' env error it s"
| "step env (Connect_done error) s = start_impl' env error s"
| "step env Link_eof s = tcp_eof_handler env s"
| "step env (Link_error e) s = tcp_error_handler env e s"
| "step env (Link_read buf) s = snd (tcp_read_handler buf s)"
| "step env Link_needs_send s = tcp_write_queue_needs_send s"

fun run :: "('rl, 'lk) collab \<Rightarrow> op list \<Rightarrow> ('rl, 'lk) client \<Rightarrow> ('rl, 'lk) client" where
  "run env [] s = s"
| "run env (x # xs) s = run env xs (step env x s)"

text \<open>Counting calls of one kind in a trace.\<close>

fun is_resolve :: "event \<Rightarrow> bool" where
  "is_resolve (Resolver_async_resolve h p) = True"
| "is_resolve _ = False"

fun is_resolver_call :: "event \<Rightarrow> bool" where
  "is_resolver_call (Resolver_async_resolve h p) = True"
| "is_resolver_call Resolver_cancel = True"
| "is_resolver_call _ = False"

fun is_connect :: "event \<Rightarrow> bool" where
  "is_connect (Socket_async_connect ep) = True"
| "is_connect _ = False"

fun is_link_new :: "event \<Rightarrow> bool" where
  "is_link_new (Link_new a) = True"
| "is_link_new _ = False"

fun is_parent_error :: "event \<Rightarrow> bool" where
  "is_parent_error (Parent_error k m) = True"
| "is_parent_error _ = False"

fun is_parent_call :: "event \<Rightarrow> bool" where
  "is_parent_call Parent_pre_resolve = True"
| "is_parent_call Parent_wait = True"
| "is_parent_call (Parent_ip_hole_punch a) = True"
| "is_parent_call Parent_connecting = True"
| "is_parent_call (Parent_error k m) = True"
| "is_parent_call (Parent_recv b) = True"
| "is_parent_call Parent_needs_send = True"
| "is_parent_call _ = False"

fun is_stats_call :: "event \<Rightarrow> bool" where
  "is_stats_call (Stats_error k) = True"
| "is_stats_call _ = False"

fun is_link_call :: "event \<Rightarrow> bool" where
  "is_link_call (Link_new a) = True"
| "is_link_call Link_start = True"
| "is_link_call (Link_set_raw_mode b) = True"
| "is_link_call (Link_send b) = True"
| "is_link_call (Link_reset_align_adjust n) = True"
| "is_link_call Link_stop = True"
| "is_link_call _ = False"

definition count :: "(event \<Rightarrow> bool) \<Rightarrow> event list \<Rightarrow> nat" where
  "count P tr = length (filter P tr)"

text \<open>Whether the socket is open after the calls of a trace: the last of its
  \<open>open\<close> and \<open>close\<close> calls decides, and it starts closed.\<close>

fun socket_is_open :: "event list \<Rightarrow> bool \<Rightarrow> bool" where
  "socket_is_open [] b = b"
| "socket_is_open (Socket_open v # tr) b = socket_is_open tr True"
| "socket_is_open (Socket_close # tr) b = socket_is_open tr False"
| "socket_is_open (e # tr) b = socket_is_open tr b"

text \<open>The calls made before the first connect attempt.\<close>

definition before_connect :: "event list \<Rightarrow> event list" where
  "before_connect tr = takeWhile (\<lambda>e. \<not> is_connect e) tr"

text \<open>The events \<open>stop_\<close> adds on a client that is not halted.\<close>

definition teardown :: "('rl, 'lk) client \<Rightarrow> event list" where
  "teardown s =
     (case impl s of Some l \<Rightarrow> [Link_stop] | None \<Rightarrow> []) @ [Socket_close, Resolver_cancel]"

text \<open>The calls made between a state and a later one.\<close>

definition added :: "('rl, 'lk) client \<Rightarrow> ('rl, 'lk) client \<Rightarrow> event list" where
  "added s s' = drop (length (trace s)) (trace s')"

text \<open>What a halted client shows to the outside: every member, with the Link reduced
  to whether there is one, and the calls made on the parent, the statistics object, the
  socket, the resolver and the remote list (the calls on the Link left out).\<close>

definition outward :: "('rl, 'lk) client \<Rightarrow> ('rl, unit) client" where
  "outward s = \<lparr>server_host = server_host s, server_port = server_port s,
     remote_list = remote_list s, impl = map_option (\<lambda>l. ()) (impl s),
     server_endpoint = server_endpoint s, halt = halt s,
     trace = filter (\<lambda>e. \<not> is_link_call e) (trace s)\<rparr>"

text \<open>The calls a halted client can receive without effect: every public method and
  both completions, \<open>transport_start\<close> only while a Link is held. The callbacks of the
  Link are left out: they come from a running Link.\<close>

fun admissible :: "bool \<Rightarrow> op \<Rightarrow> bool" where
  "admissible has_link Start = has_link"
| "admissible has_link Link_eof = False"
| "admissible has_link (Link_error e) = False"
| "admissible has_link (Link_read b) = False"
| "admissible has_link Link_needs_send = False"
| "admissible has_link x = True"

subsection \<open>A concrete set of collaborators\<close>

text \<open>Used to evaluate the methods on concrete inputs. The remote list is the list of
  cached endpoints (empty when the name is not yet resolved); the Link is the list of
  buffers queued, with room for two, in a pair with its raw-mode flag.\<close>

definition ep1 :: endpoint where
  "ep1 = \<lparr>address = \<lparr>version = V4, addr_bits = 167772161\<rparr>, port = 1194\<rparr>"

definition demo_config :: client_config where
  "demo_config = \<lparr>send_queue_max_size = 1024, free_list_max_size = 8,
     frame_READ_LINK_TCP = 2048, socket_protect = Some (\<lambda>h. False)\<rparr>"

definition demo_env :: "(endpoint list, buffer list \<times> bool) collab" where
  "demo_env = \<lparr>config = demo_config,
     platform_type_unix = True,
     endpoint_available = (\<lambda>rl. (rl \<noteq> [], ''vpn.example.com'', ''1194'')),
     set_endpoint_list = (\<lambda>eps rl. eps),
     get_endpoint = (\<lambda>rl. case rl of [] \<Rightarrow> ep1 | e # es \<Rightarrow> e),
     native_handle = 7,
     transport_is_openvpn_protocol = False,
     error_message = (\<lambda>e. ''error''),
     endpoint_to_string = (\<lambda>e. ''10.0.0.1:1194''),
     link_new = (\<lambda>a. ([], False)),
     link_start = (\<lambda>l. l),
     link_stop = (\<lambda>l. l),
     link_set_raw_mode = (\<lambda>b l. (fst l, b)),
     link_send = (\<lambda>b l. if length (fst l) < 2 then (True, (fst l @ [b], snd l)) else (False, l)),
     link_send_queue_empty = (\<lambda>l. fst l = []),
     link_reset_align_adjust = (\<lambda>n l. l)\<rparr>"

definition demo_client :: "(endpoint list, buffer list \<times> bool) client" where
  "demo_client = new_client []"

text \<open>A client of \<open>demo_env\<close> that is connected.\<close>

definition demo_connected :: "(endpoint list, buffer list \<times> bool) client" where
  "demo_connected = (new_client [ep1])\<lparr>impl := Some ([], True)\<rparr>"


text \<open>The same collaborators with a hook that accepts the socket and a parent that
  speaks the native protocol.\<close>

definition open_env :: "(endpoint list, buffer list \<times> bool) collab" where
  "open_env = demo_env\<lparr>config := demo_config\<lparr>socket_protect := Some (\<lambda>h. True)\<rparr>,
     transport_is_openvpn_protocol := True\<rparr>"

text \<open>A client of these collaborators whose remote list holds an address.\<close>

definition demo_resolved :: "(endpoint list, buffer list \<times> bool) client" where
  "demo_resolved = new_client [ep1]"

section \<open>Properties\<close>

subsection \<open>Basic facts\<close>

lemma trace_emit: "trace (emit e s) = trace s @ [e]"
  by (simp add: emit_def)

lemma halt_emit: "halt (emit e s) = halt s"
  by (simp add: emit_def)

lemma impl_emit: "impl (emit e s) = impl s"
  by (simp add: emit_def)

lemma halt_stop': "halt (stop' env s)"
  by (simp add: stop'_def Let_def emit_def split: option.splits)

lemma stop'_halted: "halt s \<Longrightarrow> stop' env s = s"
  by (simp add: stop'_def)

lemma stop'_idem: "stop' env (stop' env s) = stop' env s"
  by (rule stop'_halted) (rule halt_stop')

lemma trace_stop': "\<not> halt s \<Longrightarrow> trace (stop' env s) = trace s @ teardown s"
  by (simp add: stop'_def teardown_def Let_def emit_def split: option.splits)

lemma added_append: "trace s' = trace s @ ev \<Longrightarrow> added s s' = ev"
  by (simp add: added_def)

lemma socket_is_open_append:
  "socket_is_open (xs @ ys) b = socket_is_open ys (socket_is_open xs b)"
  by (induction xs b rule: socket_is_open.induct) simp_all

lemma count_append: "count P (xs @ ys) = count P xs + count P ys"
  by (simp add: count_def)

lemma filter_teardown:
  "filter is_connect (teardown s) = []" "filter is_link_new (teardown s) = []"
  "filter is_parent_error (teardown s) = []" "filter is_stats_call (teardown s) = []"
  "filter is_parent_call (teardown s) = []" "filter (\<lambda>e. e = Stats_error k) (teardown s) = []"
  by (simp_all add: teardown_def split: option.splits)

lemma socket_teardown: "socket_is_open (teardown s) b = False"
  by (simp add: teardown_def split: option.splits)

lemma filter_takeWhile_empty: "filter P xs = [] \<Longrightarrow> filter P (takeWhile Q xs) = []"
  by (induction xs) (auto split: if_splits)

subsection \<open>What one call can add to the trace\<close>

lemmas method_defs = stop_def stop'_def start_connect'_def connect_socket_def transport_start_def
  do_resolve'_def start_impl'_def send_def send_const_def transport_send_def
  transport_send_const_def reset_align_adjust_def tcp_error_handler_def tcp_eof_handler_def
  tcp_read_handler_def tcp_write_queue_needs_send_def emit_def Let_def server_endpoint_addr_def

lemma trace_step_extends: "\<exists>ev. trace (step env x s) = trace s @ ev"
  by (cases x) (simp_all add: method_defs split: option.splits)

lemma trace_run_extends: "\<exists>ev. trace (run env ops s) = trace s @ ev"
proof (induction ops arbitrary: s)
  case Nil
  show ?case by simp
next
  case (Cons x xs)
  obtain ev1 where e1: "trace (step env x s) = trace s @ ev1"
    using trace_step_extends by blast
  obtain ev2 where e2: "trace (run env xs (step env x s)) = trace (step env x s) @ ev2"
    using Cons.IH by blast
  show ?case using e1 e2 by simp
qed

text \<open>\<open>async_resolve\<close> is called by \<open>transport_start\<close> alone.\<close>

lemma step_no_resolve:
  "x \<noteq> Start \<Longrightarrow> filter is_resolve (trace (step env x s)) = filter is_resolve (trace s)"
  by (cases x) (simp_all add: method_defs split: option.splits)

lemma run_no_resolve:
  "Start \<notin> set ops \<Longrightarrow> filter is_resolve (trace (run env ops s)) = filter is_resolve (trace s)"
proof (induction ops arbitrary: s)
  case Nil
  show ?case by simp
next
  case (Cons x xs)
  then have x: "x \<noteq> Start" and xs: "Start \<notin> set xs" by auto
  show ?case using Cons.IH [OF xs, of "step env x s"] step_no_resolve [OF x, of env s] by simp
qed

text \<open>A halted client that is not started again stays halted, connects to nothing and
  builds no Link.\<close>

lemma step_halted:
  "halt s \<Longrightarrow> x \<noteq> Start \<Longrightarrow>
     halt (step env x s) \<and> (impl (step env x s) = None \<longleftrightarrow> impl s = None)
     \<and> filter is_connect (trace (step env x s)) = filter is_connect (trace s)
     \<and> filter is_link_new (trace (step env x s)) = filter is_link_new (trace s)"
  by (cases x) (simp_all add: method_defs split: option.splits)

lemma run_halted:
  "halt s \<Longrightarrow> Start \<notin> set ops \<Longrightarrow>
     halt (run env ops s) \<and> (impl (run env ops s) = None \<longleftrightarrow> impl s = None)
     \<and> filter is_connect (trace (run env ops s)) = filter is_connect (trace s)
     \<and> filter is_link_new (trace (run env ops s)) = filter is_link_new (trace s)"
proof (induction ops arbitrary: s)
  case Nil
  then show ?case by simp
next
  case (Cons x xs)
  then have x: "x \<noteq> Start" and xs: "Start \<notin> set xs" by auto
  note st = step_halted [OF Cons.prems(1) x, of env]
  from st have h: "halt (step env x s)" by simp
  show ?case using Cons.IH [OF h xs] st by simp
qed

lemma step_admissible:
  "halt s \<Longrightarrow> admissible (impl s \<noteq> None) x \<Longrightarrow>
     outward (step env x s) = outward s \<and> (impl s = None \<longrightarrow> step env x s = s)"
  by (cases x; cases "impl s") (simp_all add: method_defs outward_def)

lemma run_admissible:
  "halt s \<Longrightarrow> \<forall>x\<in>set ops. admissible (impl s \<noteq> None) x \<Longrightarrow>
     outward (run env ops s) = outward s \<and> (impl s = None \<longrightarrow> run env ops s = s)"
proof (induction ops arbitrary: s)
  case Nil
  show ?case by simp
next
  case (Cons x xs)
  from Cons.prems have ax: "admissible (impl s \<noteq> None) x" by simp
  note st = step_admissible [OF Cons.prems(1) ax, of env]
  from st have o: "outward (step env x s) = outward s" by simp
  have h: "halt (step env x s)"
    using o Cons.prems(1) by (simp add: outward_def)
  have i: "(impl (step env x s) \<noteq> None) = (impl s \<noteq> None)"
    using o by (cases "impl (step env x s)"; cases "impl s") (simp_all add: outward_def)
  have a: "\<forall>y\<in>set xs. admissible (impl (step env x s) \<noteq> None) y"
    using Cons.prems(2) i by simp
  note ih = Cons.IH [OF h a]
  show ?case
  proof
    show "outward (run env (x # xs) s) = outward s" using ih o by simp
  next
    show "impl s = None \<longrightarrow> run env (x # xs) s = s" using ih st by auto
  qed
qed

lemma start_connect'_head:
  "\<exists>m a ev. trace (start_connect' env s) = trace s @ Log_line m # Parent_wait # Parent_ip_hole_punch a # ev
     \<and> \<not> is_parent_call (Log_line m)"
  by (simp add: start_connect'_def connect_socket_def stop_def stop'_def
      emit_def Let_def split: option.splits)

lemma restart_notifies:
  "impl s = None \<Longrightarrow>
     take 1 (filter is_parent_call (added s (transport_start env s)))
       = [if fst (endpoint_available env (remote_list s)) then Parent_wait
          else Parent_pre_resolve]"
proof (cases "fst (endpoint_available env (remote_list s))")
  case True
  assume i: "impl s = None"
  define s2 where "s2 = s\<lparr>halt := False, server_host := fst (snd (endpoint_available env (remote_list s))),
     server_port := snd (snd (endpoint_available env (remote_list s)))\<rparr>"
  have ts: "transport_start env s = start_connect' env s2"
    using i True by (simp add: transport_start_def Let_def s2_def)
  obtain m a ev where "trace (start_connect' env s2) = trace s2 @ Log_line m # Parent_wait # Parent_ip_hole_punch a # ev"
    using start_connect'_head by blast
  then have "added s (transport_start env s) = Log_line m # Parent_wait # Parent_ip_hole_punch a # ev"
    by (simp add: ts added_def s2_def)
  then show ?thesis using True by simp
next
  case False
  assume i: "impl s = None"
  show ?thesis using i False by (simp add: transport_start_def Let_def emit_def added_def)
qed

subsection \<open>The traces of the failure paths\<close>

lemma trace_protect_fail:
  assumes "\<not> halt s" "platform_type_unix env" "socket_protect (config env) = Some hook"
    "\<not> hook (native_handle env)"
  shows "trace (start_connect' env s) = trace s @
       [Log_line (''Contacting '' @ endpoint_to_string env (get_endpoint env (remote_list s))
                    @ '' via TCP''),
        Parent_wait, Parent_ip_hole_punch (address (get_endpoint env (remote_list s))),
        Socket_open (protocol (get_endpoint env (remote_list s))),
        Socket_protect_call (native_handle env), Stats_error SOCKET_PROTECT_ERROR]
       @ teardown s @ [Parent_error UNDEF ''socket_protect error (TCP)'']"
    and "halt (start_connect' env s)"
  using assms
  by (simp_all add: start_connect'_def stop_def stop'_def emit_def Let_def teardown_def
      server_endpoint_addr_def split: option.splits)

lemma trace_resolve_fail:
  assumes "\<not> halt s" "error \<noteq> 0"
  shows "trace (do_resolve' env error it s) = trace s @ [Stats_error RESOLVE_ERROR] @ teardown s
       @ [Parent_error UNDEF (''DNS resolve error on '' @ squote @ server_host s @ squote
            @ '' for TCP session: '' @ error_message env error)]"
    and "halt (do_resolve' env error it s)"
  using assms
  by (simp_all add: do_resolve'_def stop_def stop'_def emit_def Let_def teardown_def
      split: option.splits)

lemma trace_connect_fail:
  assumes "\<not> halt s" "error \<noteq> 0"
  shows "trace (start_impl' env error s) = trace s @ [Stats_error TCP_CONNECT_ERROR] @ teardown s
       @ [Parent_error UNDEF (''TCP connect error on '' @ squote @ server_host s @ '':''
            @ server_port s @ squote @ '' ('' @ endpoint_to_string env (server_endpoint s)
            @ ''): '' @ error_message env error)]"
    and "halt (start_impl' env error s)"
    and "impl (start_impl' env error s) = None \<longleftrightarrow> impl s = None"
  using assms
  by (simp_all add: start_impl'_def stop_def stop'_def emit_def Let_def teardown_def
      split: option.splits)

lemma start_ready:
  assumes "fst (endpoint_available env rl)"
  shows "filter is_resolve (trace (transport_start env (new_client rl))) = []"
    and "0 < count is_connect (trace (transport_start env (new_client rl))) \<longrightarrow>
         count is_resolver_call (before_connect (trace (transport_start env (new_client rl)))) = 0"
  using assms
  by (simp_all add: transport_start_def new_client_def start_connect'_def connect_socket_def
      stop_def stop'_def emit_def Let_def count_def before_connect_def split: option.splits)

lemma start_not_ready:
  assumes "\<not> fst (endpoint_available env rl)"
  shows "trace (transport_start env (new_client rl)) =
       [Parent_pre_resolve, Resolver_async_resolve (fst (snd (endpoint_available env rl)))
          (snd (snd (endpoint_available env rl)))]"
  using assms
  by (simp add: transport_start_def new_client_def emit_def Let_def)

subsection \<open>Stopping\<close>

text \<open>
  Claim C2. \<open>stop()\<close> is idempotent: on a client in any state, calling it \<open>n \<ge> 1\<close>
  times leaves the same state and the same calls on the collaborators (flag, Link stop,
  socket close, resolver cancel) as calling it once.
\<close>

theorem stop_idempotent: "1 \<le> n \<Longrightarrow> (stop env ^^ n) s = stop env s"
proof (induction n)
  case 0
  then show ?case by simp
next
  case (Suc n)
  show ?case
  proof (cases "n = 0")
    case True
    then show ?thesis by simp
  next
    case False
    then have "(stop env ^^ n) s = stop env s" using Suc.IH by simp
    moreover have "stop env (stop env s) = stop env s" by (simp add: stop_def stop'_idem)
    ultimately show ?thesis by simp
  qed
qed

theorem stop_idempotent_witness:
  "(1::nat) \<le> 3 \<and> (stop demo_env ^^ 3) demo_connected = stop demo_env demo_connected
   \<and> trace (stop demo_env demo_connected) = [Link_stop, Socket_close, Resolver_cancel]"
  using stop_idempotent [of 3 demo_env demo_connected]
  by (simp add: stop_def stop'_def demo_connected_def new_client_def emit_def Let_def)

text \<open>
  Claim C3. A resolve completion or a connect completion that finds the halted flag set
  changes nothing: no call on the parent or the statistics object, and the same state.
  This holds in particular right after \<open>stop()\<close>.
\<close>

theorem late_completion_noop:
  "(halt s \<longrightarrow> do_resolve' env error it s = s \<and> start_impl' env error s = s)
   \<and> do_resolve' env error it (stop env t) = stop env t
   \<and> start_impl' env error (stop env t) = stop env t"
  by (simp add: do_resolve'_def start_impl'_def stop_def halt_stop')

theorem late_completion_noop_witness:
  "halt (stop demo_env demo_client)
   \<and> do_resolve' demo_env 0 [ep1] (stop demo_env demo_client) = stop demo_env demo_client
   \<and> start_impl' demo_env 0 (stop demo_env demo_client) = stop demo_env demo_client
   \<and> do_resolve' demo_env 5 [] (stop demo_env demo_client) = stop demo_env demo_client
   \<and> start_impl' demo_env 5 (stop demo_env demo_client) = stop demo_env demo_client"
  using late_completion_noop [where s = "stop demo_env demo_client" and env = demo_env and error = 0
      and it = "[ep1]" and t = demo_client]
    late_completion_noop [where s = "stop demo_env demo_client" and env = demo_env and error = 5
      and it = "[]" and t = demo_client]
  by (simp add: stop_def halt_stop')

text \<open>
  Claim C10. The destructor does what \<open>stop()\<close> does: the same state results, the
  client is halted, the calls made are the teardown (Link stop if a Link is held, socket
  close, resolver cancel) on a client not yet halted and none on a halted one; after a
  \<open>stop()\<close> it changes nothing.
\<close>

theorem destructor_is_stop:
  "destroy env s = stop env s \<and> destroy env (stop env s) = stop env s
   \<and> halt (destroy env s)
   \<and> added s (destroy env s) = (if halt s then [] else teardown s)"
  by (simp add: destroy_def stop_def stop'_idem halt_stop' added_def trace_stop' stop'_halted)

theorem destructor_is_stop_witness:
  "destroy demo_env demo_connected = stop demo_env demo_connected
   \<and> destroy demo_env (stop demo_env demo_connected) = stop demo_env demo_connected
   \<and> added demo_connected (destroy demo_env demo_connected)
       = [Link_stop, Socket_close, Resolver_cancel]"
  using destructor_is_stop [of demo_env demo_connected]
  by (simp add: teardown_def demo_connected_def new_client_def stop_def stop'_def emit_def
      added_def Let_def)

subsection \<open>Sending\<close>

text \<open>
  Claim C9. Without a Link, \<open>send\<close> and \<open>send_const\<close> (and their public wrappers) return
  false and change nothing, and \<open>transport_send_queue_empty\<close> returns false. With a
  Link, each of them passes the call to the Link and returns the Link's result: the
  private methods and the public wrappers alike make the one call \<open>send\<close> on the Link
  with the buffer given, keep the Link as that call leaves it, and change nothing else.
\<close>

theorem send_link_or_not:
  "(impl s = None \<longrightarrow>
      send env buf s = (False, s) \<and> send_const env buf s = (False, s)
      \<and> transport_send env buf s = (False, s) \<and> transport_send_const env buf s = (False, s)
      \<and> transport_send_queue_empty env s = False)
   \<and> (impl s = Some l \<longrightarrow>
      fst (send env buf s) = fst (link_send env buf l)
      \<and> fst (send_const env buf s) = fst (link_send env buf l)
      \<and> fst (transport_send env buf s) = fst (link_send env buf l)
      \<and> fst (transport_send_const env buf s) = fst (link_send env buf l)
      \<and> impl (snd (send env buf s)) = Some (snd (link_send env buf l))
      \<and> impl (snd (send_const env buf s)) = Some (snd (link_send env buf l))
      \<and> added s (snd (send env buf s)) = [Link_send buf]
      \<and> added s (snd (send_const env buf s)) = [Link_send buf]
      \<and> send env buf s =
           (fst (link_send env buf l),
            s\<lparr>impl := Some (snd (link_send env buf l)), trace := trace s @ [Link_send buf]\<rparr>)
      \<and> send_const env buf s = send env buf s
      \<and> transport_send env buf s = send env buf s
      \<and> transport_send_const env buf s = send env buf s
      \<and> impl (snd (transport_send env buf s)) = Some (snd (link_send env buf l))
      \<and> impl (snd (transport_send_const env buf s)) = Some (snd (link_send env buf l))
      \<and> added s (snd (transport_send env buf s)) = [Link_send buf]
      \<and> added s (snd (transport_send_const env buf s)) = [Link_send buf]
      \<and> transport_send_queue_empty env s = link_send_queue_empty env l)"
  by (simp add: send_def send_const_def transport_send_def transport_send_const_def
      transport_send_queue_empty_def added_def emit_def)

theorem send_link_or_not_witness:
  "impl demo_client = None \<and> send demo_env [1, 2] demo_client = (False, demo_client)
   \<and> transport_send demo_env [1, 2] demo_client = (False, demo_client)
   \<and> \<not> transport_send_queue_empty demo_env demo_client
   \<and> impl demo_connected = Some ([], True)
   \<and> fst (send demo_env [1, 2] demo_connected)
   \<and> transport_send demo_env [1, 2] demo_connected
       = (True, demo_connected\<lparr>impl := Some ([[1, 2]], True), trace := [Link_send [1, 2]]\<rparr>)
   \<and> transport_send_const demo_env [1, 2] demo_connected
       = (True, demo_connected\<lparr>impl := Some ([[1, 2]], True), trace := [Link_send [1, 2]]\<rparr>)
   \<and> transport_send_queue_empty demo_env demo_connected"
  using send_link_or_not [where s = demo_client and env = demo_env and buf = "[1, 2]"
      and l = "([], True)"]
    send_link_or_not [where s = demo_connected and env = demo_env and buf = "[1, 2]"
      and l = "([], True)"]
  by (simp add: demo_client_def demo_connected_def new_client_def demo_env_def)

subsection \<open>After the halt\<close>

text \<open>
  Claim C1, as stated: once \<open>stop()\<close> has set the halted flag, no later call changes the
  state or reaches the parent, the statistics object, the socket or the resolver, a later
  \<open>start()\<close> included. This fails: \<open>transport_start\<close> tests only that no Link is held and
  then clears the flag itself. On a new client that is stopped and then started, with no
  address ready, the flag is clear again, the parent is told that a resolve begins and the
  resolver is asked.
\<close>

theorem restart_after_stop_counterexample:
  "halt (stop demo_env demo_client)
   \<and> \<not> halt (run demo_env [Start] (stop demo_env demo_client))
   \<and> added (stop demo_env demo_client) (run demo_env [Start] (stop demo_env demo_client))
       = [Parent_pre_resolve, Resolver_async_resolve ''vpn.example.com'' ''1194'']"
  by (simp add: stop_def stop'_def transport_start_def emit_def Let_def added_def
      demo_client_def new_client_def demo_env_def)

text \<open>
  Claim C1, amended. On a halted client, any sequence of \<open>stop()\<close>, \<open>send\<close>,
  \<open>send_const\<close>, \<open>send_queue_empty\<close>, \<open>reset_align_adjust\<close>, resolve completions and
  connect completions, and of \<open>start()\<close> while a Link is held, leaves the flag set and
  every member as it was, and makes no call on the parent, the statistics object, the
  socket, the resolver or the remote list (a held Link still receives the sends and the
  alignment resets); with no Link the state is unchanged altogether. A \<open>start()\<close> on a
  halted client without a Link runs again: the first thing the parent then hears is
  \<open>transport_wait\<close> when an address is ready, \<open>transport_pre_resolve\<close> when not.
\<close>

theorem halted_client_quiet:
  "halt s \<Longrightarrow> \<forall>x\<in>set ops. admissible (impl s \<noteq> None) x \<Longrightarrow>
     outward (run env ops s) = outward s \<and> (impl s = None \<longrightarrow> run env ops s = s)
     \<and> (impl s = None \<longrightarrow>
          take 1 (filter is_parent_call (added s (transport_start env s)))
            = [if fst (endpoint_available env (remote_list s)) then Parent_wait
               else Parent_pre_resolve])"
  using run_admissible [of s ops env] restart_notifies [of s env] by blast

theorem halted_client_quiet_witness:
  "halt (stop demo_env demo_connected)
   \<and> outward (run demo_env [Start, Send [1], Stop, Resolve_done 0 [ep1], Connect_done 0,
        Send_queue_empty, Reset_align_adjust 4, Send_const [2]] (stop demo_env demo_connected))
       = outward (stop demo_env demo_connected)
   \<and> run demo_env [Stop, Send [1], Resolve_done 0 [ep1], Connect_done 0]
        (stop demo_env demo_client) = stop demo_env demo_client
   \<and> take 1 (filter is_parent_call
        (added (stop demo_env demo_client) (transport_start demo_env (stop demo_env demo_client))))
       = [Parent_pre_resolve]"
proof -
  have h: "halt (stop demo_env demo_connected)"
    by (simp add: stop_def halt_stop')
  have i: "impl (stop demo_env demo_connected) \<noteq> None"
    by (simp add: stop_def stop'_def demo_connected_def new_client_def emit_def Let_def)
  have a: "\<forall>x\<in>set [Start, Send [1], Stop, Resolve_done 0 [ep1], Connect_done 0, Send_queue_empty,
        Reset_align_adjust 4, Send_const [2]].
         admissible (impl (stop demo_env demo_connected) \<noteq> None) x"
    using i by simp
  have h2: "halt (stop demo_env demo_client)"
    by (simp add: stop_def halt_stop')
  have i2: "impl (stop demo_env demo_client) = None"
    by (simp add: stop_def stop'_def demo_client_def new_client_def emit_def Let_def)
  have a2: "\<forall>x\<in>set [Stop, Send [1], Resolve_done 0 [ep1], Connect_done 0].
         admissible (impl (stop demo_env demo_client) \<noteq> None) x"
    by simp
  have r: "\<not> fst (endpoint_available demo_env (remote_list (stop demo_env demo_client)))"
    by (simp add: stop_def stop'_def demo_client_def new_client_def emit_def Let_def demo_env_def)
  show ?thesis
    using h halted_client_quiet [OF h a, of demo_env] halted_client_quiet [OF h2 a2, of demo_env]
      i2 r
    by simp
qed

subsection \<open>Starting\<close>

text \<open>
  Claim C4. A new client is started once. If the remote list reports a ready address, no
  resolve is issued, neither before the connect attempt nor later, and nothing at all is
  asked of the resolver before the connect attempt. If it reports none, the first two
  calls are the parent's pre-resolve notification and one \<open>async_resolve\<close> on the host
  and port reported; whatever is called afterwards (short of a second start), that
  resolve stays the only one and it precedes every connect attempt.
\<close>

theorem start_resolves_at_most_once:
  assumes "Start \<notin> set ops"
  shows "let r = endpoint_available env rl;
           s1 = transport_start env (new_client rl);
           sn = run env ops s1 in
       (fst r \<longrightarrow>
          count is_resolve (trace sn) = 0
          \<and> (0 < count is_connect (trace s1) \<longrightarrow>
               count is_resolver_call (before_connect (trace s1)) = 0))
       \<and> (\<not> fst r \<longrightarrow>
          trace s1 = [Parent_pre_resolve, Resolver_async_resolve (fst (snd r)) (snd (snd r))]
          \<and> take 2 (trace sn) = trace s1
          \<and> count is_resolve (before_connect (trace sn)) = 1
          \<and> count is_resolve (trace sn) = 1)"
proof -
  define r where "r = endpoint_available env rl"
  define s1 :: "('a, 'b) client" where "s1 = transport_start env (new_client rl)"
  define sn where "sn = run env ops s1"
  have nr: "filter is_resolve (trace sn) = filter is_resolve (trace s1)"
    unfolding sn_def by (rule run_no_resolve [OF assms])
  obtain ev where ev: "trace sn = trace s1 @ ev"
    unfolding sn_def using trace_run_extends by blast
  have ready: "count is_resolve (trace sn) = 0
      \<and> (0 < count is_connect (trace s1) \<longrightarrow>
           count is_resolver_call (before_connect (trace s1)) = 0)" if "fst r"
  proof -
    have a: "fst (endpoint_available env rl)" using that by (simp add: r_def)
    have "filter is_resolve (trace s1) = []"
      unfolding s1_def by (rule start_ready(1) [OF a])
    then have "count is_resolve (trace sn) = 0" using nr by (simp add: count_def)
    moreover have "0 < count is_connect (trace s1) \<longrightarrow>
           count is_resolver_call (before_connect (trace s1)) = 0"
      unfolding s1_def by (rule start_ready(2) [OF a])
    ultimately show ?thesis by simp
  qed
  have not_ready: "trace s1 = [Parent_pre_resolve, Resolver_async_resolve (fst (snd r)) (snd (snd r))]
          \<and> take 2 (trace sn) = trace s1
          \<and> count is_resolve (before_connect (trace sn)) = 1
          \<and> count is_resolve (trace sn) = 1" if "\<not> fst r"
  proof -
    have a: "\<not> fst (endpoint_available env rl)" using that by (simp add: r_def)
    have t1: "trace s1 = [Parent_pre_resolve, Resolver_async_resolve (fst (snd r)) (snd (snd r))]"
      unfolding s1_def r_def by (rule start_not_ready [OF a])
    have e0: "filter is_resolve ev = []"
      using nr by (simp add: ev)
    have t2: "take 2 (trace sn) = trace s1"
      by (simp add: ev t1)
    have t3: "count is_resolve (trace sn) = 1"
      using e0 by (simp add: ev t1 count_def)
    have "before_connect (trace sn) =
        [Parent_pre_resolve, Resolver_async_resolve (fst (snd r)) (snd (snd r))]
        @ takeWhile (\<lambda>e. \<not> is_connect e) ev"
      by (simp add: before_connect_def ev t1)
    then have t4: "count is_resolve (before_connect (trace sn)) = 1"
      using filter_takeWhile_empty [OF e0, of "\<lambda>e. \<not> is_connect e"] by (simp add: count_def)
    show ?thesis using t1 t2 t3 t4 by simp
  qed
  show ?thesis
    unfolding Let_def r_def [symmetric] s1_def [symmetric] sn_def [symmetric]
    using ready not_ready by blast
qed

theorem start_resolves_at_most_once_witness:
  "Start \<notin> set [Resolve_done 0 [ep1], Connect_done 0]
   \<and> \<not> fst (endpoint_available open_env [])
   \<and> take 2 (trace (run open_env [Resolve_done 0 [ep1], Connect_done 0]
        (transport_start open_env (new_client []))))
       = [Parent_pre_resolve, Resolver_async_resolve ''vpn.example.com'' ''1194'']
   \<and> count is_resolve (trace (run open_env [Resolve_done 0 [ep1], Connect_done 0]
        (transport_start open_env (new_client [])))) = 1
   \<and> fst (endpoint_available open_env [ep1])
   \<and> count is_resolve (trace (run open_env [Resolve_done 0 [ep1], Connect_done 0]
        (transport_start open_env (new_client [ep1])))) = 0"
proof -
  have n: "Start \<notin> set [Resolve_done 0 [ep1], Connect_done 0]" by simp
  show ?thesis
    using n start_resolves_at_most_once [OF n, of open_env "[]"]
      start_resolves_at_most_once [OF n, of open_env "[ep1]"]
    by (simp add: Let_def open_env_def demo_env_def)
qed

subsection \<open>Failures\<close>

text \<open>
  Claim C5. On a Unix platform with a protection hook configured, if the hook refuses
  the newly opened socket, \<open>start_connect_\<close> (entered by a client that is not halted)
  records one error of kind \<open>SOCKET_PROTECT_ERROR\<close>, stops the client, and then sends
  the parent one error notification, its last call; the socket is closed before that
  notification; no connect attempt is issued then or by any later call short of a new
  start.
\<close>

theorem protect_failure_reported:
  assumes "\<not> halt s" "platform_type_unix env" "socket_protect (config env) = Some hook"
    "\<not> hook (native_handle env)" "Start \<notin> set ops"
  shows "let s' = start_connect' env s; ep = get_endpoint env (remote_list s) in
       added s s' =
         [Log_line (''Contacting '' @ endpoint_to_string env ep @ '' via TCP''),
          Parent_wait, Parent_ip_hole_punch (address ep), Socket_open (protocol ep),
          Socket_protect_call (native_handle env), Stats_error SOCKET_PROTECT_ERROR]
         @ teardown s @ [Parent_error UNDEF ''socket_protect error (TCP)'']
       \<and> count is_stats_call (added s s') = 1
       \<and> count (\<lambda>e. e = Stats_error SOCKET_PROTECT_ERROR) (added s s') = 1
       \<and> count is_parent_error (added s s') = 1
       \<and> count is_connect (added s s') = 0
       \<and> halt s'
       \<and> last (trace s') = Parent_error UNDEF ''socket_protect error (TCP)''
       \<and> \<not> socket_is_open (butlast (trace s')) b
       \<and> count is_connect (trace (run env ops s')) = count is_connect (trace s)"
proof -
  define s' where "s' = start_connect' env s"
  define ep where "ep = get_endpoint env (remote_list s)"
  define ev where "ev = [Log_line (''Contacting '' @ endpoint_to_string env ep @ '' via TCP''),
          Parent_wait, Parent_ip_hole_punch (address ep), Socket_open (protocol ep),
          Socket_protect_call (native_handle env), Stats_error SOCKET_PROTECT_ERROR]
         @ teardown s @ [Parent_error UNDEF ''socket_protect error (TCP)'']"
  have tr: "trace s' = trace s @ ev"
    unfolding s'_def ev_def ep_def using trace_protect_fail(1) [OF assms(1-4)] by simp
  have h: "halt s'"
    unfolding s'_def by (rule trace_protect_fail(2) [OF assms(1-4)])
  have ad: "added s s' = ev" by (rule added_append [OF tr])
  have c1: "count is_stats_call ev = 1"
    by (simp add: ev_def count_def filter_teardown)
  have c2: "count (\<lambda>e. e = Stats_error SOCKET_PROTECT_ERROR) ev = 1"
    by (simp add: ev_def count_def filter_teardown)
  have c3: "count is_parent_error ev = 1"
    by (simp add: ev_def count_def filter_teardown)
  have c4: "count is_connect ev = 0"
    by (simp add: ev_def count_def filter_teardown)
  have l: "last (trace s') = Parent_error UNDEF ''socket_protect error (TCP)''"
    by (simp add: tr ev_def)
  have bl: "butlast (trace s') = trace s @ [Log_line (''Contacting '' @ endpoint_to_string env ep @ '' via TCP''),
          Parent_wait, Parent_ip_hole_punch (address ep), Socket_open (protocol ep),
          Socket_protect_call (native_handle env), Stats_error SOCKET_PROTECT_ERROR]
         @ teardown s"
    by (simp add: tr ev_def butlast_append)
  have so: "\<not> socket_is_open (butlast (trace s')) b"
    by (simp only: bl socket_is_open_append socket_teardown) simp
  have "filter is_connect (trace (run env ops s')) = filter is_connect (trace s')"
    using run_halted [OF h assms(5)] by simp
  then have "count is_connect (trace (run env ops s')) = count is_connect (trace s')"
    by (simp add: count_def)
  also have "\<dots> = count is_connect (trace s)"
    using c4 by (simp add: tr count_append)
  finally have after: "count is_connect (trace (run env ops s')) = count is_connect (trace s)" .
  show ?thesis
    unfolding Let_def s'_def [symmetric] ep_def [symmetric]
    using ad c1 c2 c3 c4 h l so after by (simp add: ev_def)
qed

theorem protect_failure_reported_witness:
  "\<not> halt demo_resolved \<and> platform_type_unix demo_env
   \<and> socket_protect (config demo_env) = Some (\<lambda>h. False)
   \<and> Start \<notin> set [Connect_done 0, Send [1]]
   \<and> added demo_resolved (start_connect' demo_env demo_resolved) =
       [Log_line ''Contacting 10.0.0.1:1194 via TCP'', Parent_wait,
        Parent_ip_hole_punch (address ep1), Socket_open V4, Socket_protect_call 7,
        Stats_error SOCKET_PROTECT_ERROR, Socket_close, Resolver_cancel,
        Parent_error UNDEF ''socket_protect error (TCP)'']
   \<and> count is_connect (trace (run demo_env [Connect_done 0, Send [1]]
        (start_connect' demo_env demo_resolved))) = 0"
proof -
  have h1: "\<not> halt demo_resolved" by (simp add: demo_resolved_def new_client_def)
  have h2: "platform_type_unix demo_env" by (simp add: demo_env_def)
  have h3: "socket_protect (config demo_env) = Some (\<lambda>h. False)"
    by (simp add: demo_env_def demo_config_def)
  have h4: "\<not> (\<lambda>h. False) (native_handle demo_env)" by simp
  have h5: "Start \<notin> set [Connect_done 0, Send [1]]" by simp
  have g: "get_endpoint demo_env (remote_list demo_resolved) = ep1"
    by (simp add: demo_env_def demo_resolved_def new_client_def)
  have e: "endpoint_to_string demo_env ep1 = ''10.0.0.1:1194''" "native_handle demo_env = 7"
    by (simp_all add: demo_env_def)
  have p: "protocol ep1 = V4" by (simp add: protocol_def ep1_def)
  have t: "teardown demo_resolved = [Socket_close, Resolver_cancel]"
    "trace demo_resolved = []"
    by (simp_all add: teardown_def demo_resolved_def new_client_def)
  show ?thesis
    using h1 h2 h3 h5 protect_failure_reported [OF h1 h2 h3 h4 h5, of True]
    by (simp add: Let_def g e p t count_def)
qed

text \<open>
  Claim C6, as stated: after a resolve that completes with an error, the client never
  issues a connect attempt. This fails when the client is started again: it holds no
  Link, so \<open>transport_start\<close> clears the flag and asks the resolver a second time, and
  when that resolve succeeds the client connects. Here the first resolve fails with
  error 5, then comes \<open>start()\<close> and a resolve that returns one address.
\<close>

theorem restart_after_resolve_failure_counterexample:
  "\<not> halt (transport_start open_env demo_client)
   \<and> halt (do_resolve' open_env 5 [] (transport_start open_env demo_client))
   \<and> count is_connect (trace (do_resolve' open_env 5 [] (transport_start open_env demo_client))) = 0
   \<and> filter is_connect (trace (run open_env [Start, Resolve_done 0 [ep1]]
        (do_resolve' open_env 5 [] (transport_start open_env demo_client))))
       = [Socket_async_connect ep1]"
  by (simp add: transport_start_def do_resolve'_def start_connect'_def connect_socket_def
      stop_def stop'_def emit_def Let_def count_def server_endpoint_addr_def
      demo_client_def new_client_def open_env_def demo_env_def demo_config_def)

text \<open>
  Claim C6, amended. If the resolve completes with an error on a client that is not
  halted, one error of kind \<open>RESOLVE_ERROR\<close> is recorded, the client is stopped, the
  parent receives one error notification of kind \<open>UNDEF\<close> with the text built from the
  host and the error message, and the client is halted; in every later sequence of calls
  that holds no further \<open>start()\<close> it stays halted and issues no connect attempt.
\<close>

theorem resolve_failure_reported:
  assumes "\<not> halt s" "error \<noteq> 0" "Start \<notin> set ops"
  shows "let s' = do_resolve' env error it s in
       added s s' = [Stats_error RESOLVE_ERROR] @ teardown s
         @ [Parent_error UNDEF (''DNS resolve error on '' @ squote @ server_host s @ squote
              @ '' for TCP session: '' @ error_message env error)]
       \<and> count is_stats_call (added s s') = 1
       \<and> count (\<lambda>e. e = Stats_error RESOLVE_ERROR) (added s s') = 1
       \<and> count is_parent_call (added s s') = 1
       \<and> count is_parent_error (added s s') = 1
       \<and> count is_connect (added s s') = 0
       \<and> halt s'
       \<and> halt (run env ops s')
       \<and> count is_connect (trace (run env ops s')) = count is_connect (trace s)"
proof -
  define s' where "s' = do_resolve' env error it s"
  define ev where "ev = [Stats_error RESOLVE_ERROR] @ teardown s
         @ [Parent_error UNDEF (''DNS resolve error on '' @ squote @ server_host s @ squote
              @ '' for TCP session: '' @ error_message env error)]"
  have tr: "trace s' = trace s @ ev"
    unfolding s'_def ev_def by (rule trace_resolve_fail(1) [OF assms(1,2)])
  have h: "halt s'"
    unfolding s'_def by (rule trace_resolve_fail(2) [OF assms(1,2)])
  have ad: "added s s' = ev" by (rule added_append [OF tr])
  have c: "count is_stats_call ev = 1" "count (\<lambda>e. e = Stats_error RESOLVE_ERROR) ev = 1"
    "count is_parent_call ev = 1" "count is_parent_error ev = 1" "count is_connect ev = 0"
    by (simp_all add: ev_def count_def filter_teardown)
  note rh = run_halted [OF h assms(3), of env]
  have "count is_connect (trace (run env ops s')) = count is_connect (trace s')"
    using rh by (simp add: count_def)
  also have "\<dots> = count is_connect (trace s)"
    using c(5) by (simp add: tr count_append)
  finally have after: "count is_connect (trace (run env ops s')) = count is_connect (trace s)" .
  show ?thesis
    unfolding Let_def s'_def [symmetric]
    using ad c h rh after by (simp add: ev_def)
qed

theorem resolve_failure_reported_witness:
  "\<not> halt (transport_start demo_env demo_client) \<and> (5::int) \<noteq> 0
   \<and> Start \<notin> set [Connect_done 0, Send [1], Stop]
   \<and> added (transport_start demo_env demo_client)
        (do_resolve' demo_env 5 [] (transport_start demo_env demo_client)) =
       [Stats_error RESOLVE_ERROR, Socket_close, Resolver_cancel,
        Parent_error UNDEF (''DNS resolve error on '' @ squote @ ''vpn.example.com'' @ squote
          @ '' for TCP session: error'')]
   \<and> count is_connect (trace (run demo_env [Connect_done 0, Send [1], Stop]
        (do_resolve' demo_env 5 [] (transport_start demo_env demo_client)))) = 0"
proof -
  define s where "s = transport_start demo_env demo_client"
  have s: "s = demo_client\<lparr>server_host := ''vpn.example.com'', server_port := ''1194'',
      trace := [Parent_pre_resolve, Resolver_async_resolve ''vpn.example.com'' ''1194'']\<rparr>"
    by (simp add: s_def transport_start_def demo_client_def new_client_def demo_env_def emit_def Let_def)
  have h1: "\<not> halt s" by (simp add: s demo_client_def new_client_def)
  have h2: "(5::int) \<noteq> 0" by simp
  have h3: "Start \<notin> set [Connect_done 0, Send [1], Stop]" by simp
  have t: "teardown s = [Socket_close, Resolver_cancel]" "server_host s = ''vpn.example.com''"
    "count is_connect (trace s) = 0"
    by (simp_all add: teardown_def s demo_client_def new_client_def count_def)
  have e: "error_message demo_env 5 = ''error''" by (simp add: demo_env_def)
  show ?thesis
    unfolding s_def [symmetric]
    using h1 h3 resolve_failure_reported [OF h1 h2 h3, of demo_env "[]"]
    by (simp add: Let_def t e)
qed

text \<open>
  Claim C7, as stated: after a connect that completes with an error, the client never
  constructs a Link. This fails when the client is started again: it holds no Link, so
  \<open>transport_start\<close> clears the flag and connects a second time, and when that connect
  succeeds \<open>start_impl_\<close> constructs the Link. Here the first connect fails with error
  111, then comes \<open>start()\<close> and a connect that succeeds.
\<close>

theorem restart_after_connect_failure_counterexample:
  "\<not> halt (transport_start open_env demo_resolved)
   \<and> halt (start_impl' open_env 111 (transport_start open_env demo_resolved))
   \<and> count is_link_new (trace (start_impl' open_env 111 (transport_start open_env demo_resolved))) = 0
   \<and> count is_link_new (trace (run open_env [Start, Connect_done 0]
        (start_impl' open_env 111 (transport_start open_env demo_resolved)))) = 1
   \<and> impl (run open_env [Start, Connect_done 0]
        (start_impl' open_env 111 (transport_start open_env demo_resolved))) = Some ([], False)"
  by (simp add: transport_start_def start_impl'_def start_connect'_def connect_socket_def
      stop_def stop'_def emit_def Let_def count_def server_endpoint_addr_def
      demo_resolved_def new_client_def open_env_def demo_env_def demo_config_def)

text \<open>
  Claim C7, amended. If the connect completes with an error on a client that is not
  halted, one error of kind \<open>TCP_CONNECT_ERROR\<close> is recorded, the client is stopped, the
  parent receives one error notification, and the client is halted; in every later
  sequence of calls that holds no further \<open>start()\<close> it stays halted and constructs no
  Link.
\<close>

theorem connect_failure_reported:
  assumes "\<not> halt s" "error \<noteq> 0" "Start \<notin> set ops"
  shows "let s' = start_impl' env error s in
       added s s' = [Stats_error TCP_CONNECT_ERROR] @ teardown s
         @ [Parent_error UNDEF (''TCP connect error on '' @ squote @ server_host s @ '':''
              @ server_port s @ squote @ '' ('' @ endpoint_to_string env (server_endpoint s)
              @ ''): '' @ error_message env error)]
       \<and> count is_stats_call (added s s') = 1
       \<and> count (\<lambda>e. e = Stats_error TCP_CONNECT_ERROR) (added s s') = 1
       \<and> count is_parent_call (added s s') = 1
       \<and> count is_parent_error (added s s') = 1
       \<and> count is_link_new (added s s') = 0
       \<and> halt s'
       \<and> halt (run env ops s')
       \<and> count is_link_new (trace (run env ops s')) = count is_link_new (trace s)
       \<and> (impl (run env ops s') = None \<longleftrightarrow> impl s = None)"
proof -
  define s' where "s' = start_impl' env error s"
  define ev where "ev = [Stats_error TCP_CONNECT_ERROR] @ teardown s
         @ [Parent_error UNDEF (''TCP connect error on '' @ squote @ server_host s @ '':''
              @ server_port s @ squote @ '' ('' @ endpoint_to_string env (server_endpoint s)
              @ ''): '' @ error_message env error)]"
  have tr: "trace s' = trace s @ ev"
    unfolding s'_def ev_def by (rule trace_connect_fail(1) [OF assms(1,2)])
  have h: "halt s'"
    unfolding s'_def by (rule trace_connect_fail(2) [OF assms(1,2)])
  have i: "impl s' = None \<longleftrightarrow> impl s = None"
    unfolding s'_def by (rule trace_connect_fail(3) [OF assms(1,2)])
  have ad: "added s s' = ev" by (rule added_append [OF tr])
  have c: "count is_stats_call ev = 1" "count (\<lambda>e. e = Stats_error TCP_CONNECT_ERROR) ev = 1"
    "count is_parent_call ev = 1" "count is_parent_error ev = 1" "count is_link_new ev = 0"
    by (simp_all add: ev_def count_def filter_teardown)
  note rh = run_halted [OF h assms(3), of env]
  have "count is_link_new (trace (run env ops s')) = count is_link_new (trace s')"
    using rh by (simp add: count_def)
  also have "\<dots> = count is_link_new (trace s)"
    using c(5) by (simp add: tr count_append)
  finally have after: "count is_link_new (trace (run env ops s')) = count is_link_new (trace s)" .
  show ?thesis
    unfolding Let_def s'_def [symmetric]
    using ad c h rh after i by (simp add: ev_def)
qed

theorem connect_failure_reported_witness:
  "\<not> halt (transport_start open_env demo_resolved) \<and> (111::int) \<noteq> 0
   \<and> Start \<notin> set [Connect_done 0, Send [1], Stop]
   \<and> added (transport_start open_env demo_resolved)
        (start_impl' open_env 111 (transport_start open_env demo_resolved)) =
       [Stats_error TCP_CONNECT_ERROR, Socket_close, Resolver_cancel,
        Parent_error UNDEF (''TCP connect error on '' @ squote @ ''vpn.example.com:1194''
          @ squote @ '' (10.0.0.1:1194): error'')]
   \<and> count is_link_new (trace (run open_env [Connect_done 0, Send [1], Stop]
        (start_impl' open_env 111 (transport_start open_env demo_resolved)))) = 0
   \<and> impl (run open_env [Connect_done 0, Send [1], Stop]
        (start_impl' open_env 111 (transport_start open_env demo_resolved))) = None"
proof -
  define s where "s = transport_start open_env demo_resolved"
  have s: "s = demo_resolved\<lparr>server_host := ''vpn.example.com'', server_port := ''1194'',
      server_endpoint := ep1,
      trace := [Log_line ''Contacting 10.0.0.1:1194 via TCP'', Parent_wait,
        Parent_ip_hole_punch (address ep1), Socket_open V4, Socket_protect_call 7,
        Socket_set_no_delay True, Socket_async_connect ep1]\<rparr>"
    by (simp add: s_def transport_start_def start_connect'_def connect_socket_def
        demo_resolved_def new_client_def open_env_def demo_env_def demo_config_def emit_def Let_def
        server_endpoint_addr_def protocol_def ep1_def)
  have h1: "\<not> halt s" by (simp add: s demo_resolved_def new_client_def)
  have h2: "(111::int) \<noteq> 0" by simp
  have h3: "Start \<notin> set [Connect_done 0, Send [1], Stop]" by simp
  have t: "teardown s = [Socket_close, Resolver_cancel]" "server_host s = ''vpn.example.com''"
    "server_port s = ''1194''" "server_endpoint s = ep1" "impl s = None"
    "count is_link_new (trace s) = 0"
    by (simp_all add: teardown_def s demo_resolved_def new_client_def count_def)
  have e: "error_message open_env 111 = ''error''"
    "endpoint_to_string open_env ep1 = ''10.0.0.1:1194''"
    by (simp_all add: open_env_def demo_env_def)
  show ?thesis
    unfolding s_def [symmetric]
    using h1 h3 connect_failure_reported [OF h1 h2 h3, of open_env]
    by (simp add: Let_def t e)
qed

subsection \<open>Connecting\<close>

text \<open>
  Claim C8. If the connect completes without error on a client that is not halted, one
  Link is constructed with this client as its sink and the config's send-queue size,
  free-list size and read frame, it is started, raw mode is switched on exactly when the
  parent does not speak the OpenVPN protocol, and the parent receives one
  \<open>transport_connecting\<close> and nothing else.
\<close>

theorem connect_success_builds_link:
  assumes "\<not> halt s"
  shows "let s' = start_impl' env 0 s;
           args = \<lparr>la_sink = This_client,
                   la_send_queue_max_size = send_queue_max_size (config env),
                   la_free_list_max_size = free_list_max_size (config env),
                   la_frame_context = frame_READ_LINK_TCP (config env)\<rparr> in
       added s s' = [Link_new args, Link_start]
         @ (if transport_is_openvpn_protocol env then [] else [Link_set_raw_mode True])
         @ [Parent_connecting]
       \<and> impl s' = Some ((if transport_is_openvpn_protocol env then (\<lambda>l. l)
                           else link_set_raw_mode env True)
                          (link_start env (link_new env args)))
       \<and> count is_link_new (added s s') = 1
       \<and> count (\<lambda>e. e = Link_start) (added s s') = 1
       \<and> (Link_set_raw_mode True \<in> set (added s s') \<longleftrightarrow> \<not> transport_is_openvpn_protocol env)
       \<and> count is_parent_call (added s s') = 1
       \<and> count (\<lambda>e. e = Parent_connecting) (added s s') = 1
       \<and> count is_stats_call (added s s') = 0
       \<and> \<not> halt s'"
  using assms
  by (simp add: start_impl'_def emit_def Let_def added_def count_def)

theorem connect_success_builds_link_witness:
  "\<not> halt demo_resolved
   \<and> added demo_resolved (start_impl' demo_env 0 demo_resolved) =
       [Link_new \<lparr>la_sink = This_client, la_send_queue_max_size = 1024,
          la_free_list_max_size = 8, la_frame_context = 2048\<rparr>,
        Link_start, Link_set_raw_mode True, Parent_connecting]
   \<and> impl (start_impl' demo_env 0 demo_resolved) = Some ([], True)
   \<and> added demo_resolved (start_impl' open_env 0 demo_resolved) =
       [Link_new \<lparr>la_sink = This_client, la_send_queue_max_size = 1024,
          la_free_list_max_size = 8, la_frame_context = 2048\<rparr>,
        Link_start, Parent_connecting]
   \<and> impl (start_impl' open_env 0 demo_resolved) = Some ([], False)"
proof -
  have h1: "\<not> halt demo_resolved" by (simp add: demo_resolved_def new_client_def)
  show ?thesis
    using h1 connect_success_builds_link [OF h1, of demo_env]
      connect_success_builds_link [OF h1, of open_env]
    by (simp add: Let_def open_env_def demo_env_def demo_config_def)
qed

end
